theory Spec2Isabelle
  imports Complex_Main
begin

section \<open>Regression training for decision stumps (boosting/stump_regress.h)\<close>

text \<open>
  The header defines three objects: the accumulator \<open>W_regress\<close>, the split score
  \<open>Z_regress\<close> and the leaf predictor \<open>C_regress\<close>.

  Numbers. The fields of the accumulator are C++ doubles and the locals of \<open>add\<close> and
  \<open>transfer\<close> are C++ floats. They are embedded as HOL reals, so every sum, product
  and guarded quotient is the exact one: rounding, overflow and stored non-finite
  values are outside this model, and a result below is a result about the program
  only where the program's arithmetic is exact too. The one place where the source
  divides without a guard (the fallback of \<open>C_regress\<close>) keeps the IEEE outcome of a
  division by zero as a value of its own, see \<open>fdiv\<close>.
\<close>

subsection \<open>Data model\<close>

text \<open>
  Modelled from the spec: the bucket enumeration of stump_training.h (not part of the
  sources at hand), FALSE = 0, TRUE = 1, MISSING = 2. The source passes buckets as
  \<open>int\<close> and indexes the arrays \<open>double dist[3]\<close> with them; the three-valued type
  stands for the indices the callers are required to pass.
\<close>

datatype Bucket = FALSE | TRUE | MISSING

definition bucket_index :: "Bucket \<Rightarrow> nat" where
  "bucket_index b = (case b of FALSE \<Rightarrow> 0 | TRUE \<Rightarrow> 1 | MISSING \<Rightarrow> 2)"

text \<open>The index ranges of the loops \<open>for (unsigned i = 0; i < 2; ++i)\<close> and \<open>i < 3\<close>.\<close>

definition buckets_upto2 :: "Bucket list" where
  "buckets_upto2 = [FALSE, TRUE]"

definition buckets_upto3 :: "Bucket list" where
  "buckets_upto3 = [FALSE, TRUE, MISSING]"

text \<open>
  Modelled from the spec: the type \<open>Label\<close> of training_data.h (not part of the sources
  at hand), a scalar target value read with \<open>value()\<close>.
\<close>

datatype Label = Label (label_value: real)

text \<open>
  The template parameter \<open>Iterator\<close>: the sample weights reachable from the iterator,
  by offset. The source only ever dereferences the iterator itself (\<open>*it\<close>).
\<close>

type_synonym Iterator = "nat \<Rightarrow> real"

definition deref :: "Iterator \<Rightarrow> real" where
  "deref it = it 0"

text \<open>\<open>throw Exception(msg)\<close>.\<close>

datatype error = Exception string

definition InvalidProblem :: error where
  "InvalidProblem = Exception ''W_regress::W_regress(): not a regression problem''"

definition NotImplemented :: error where
  "NotImplemented = Exception ''W_regress::transfer() not implemented''"

record W_regress =
  dist :: "Bucket \<Rightarrow> real"
  sqr :: "Bucket \<Rightarrow> real"
  wt :: "Bucket \<Rightarrow> real"

subsection \<open>The accumulator W\<close>

text \<open>One round of the constructor's loop: \<open>dist[i] = sqr[i] = wt[i] = 0.0\<close>.\<close>

definition zero_bucket :: "Bucket \<Rightarrow> W_regress \<Rightarrow> W_regress" where
  "zero_bucket i this =
     (let this = this\<lparr>wt := (wt this)(i := 0)\<rparr>;
          this = this\<lparr>sqr := (sqr this)(i := wt this i)\<rparr>;
          this = this\<lparr>dist := (dist this)(i := sqr this i)\<rparr>
      in this)"

text \<open>
  The constructor \<open>W_regress(size_t nl)\<close>. The arrays are not initialised before the
  loop runs: \<open>raw\<close> is their indeterminate content.
\<close>

definition W_regress_new :: "W_regress \<Rightarrow> nat \<Rightarrow> error + W_regress" where
  "W_regress_new raw nl =
     (if nl \<noteq> 1 then Inl (Exception ''W_regress::W_regress(): not a regression problem'')
      else Inr (fold zero_bucket buckets_upto3 raw))"

text \<open>\<open>add(correct_label, bucket, weight, it, advance)\<close>.\<close>

definition add :: "Label \<Rightarrow> Bucket \<Rightarrow> real \<Rightarrow> Iterator \<Rightarrow> int \<Rightarrow> W_regress \<Rightarrow> W_regress" where
  "add correct_label bucket weight it advance this =
     (let f = label_value correct_label;
          w = deref it * weight;
          fw = f * w;
          ffw = f * fw;
          this = this\<lparr>dist := (dist this)(bucket := dist this bucket + fw)\<rparr>;
          this = this\<lparr>sqr := (sqr this)(bucket := sqr this bucket + ffw)\<rparr>;
          this = this\<lparr>wt := (wt this)(bucket := wt this bucket + w)\<rparr>
      in this)"

text \<open>\<open>add(correct_label, bucket, it, advance)\<close>: the overload with weight 1.0.\<close>

definition add_unweighted :: "Label \<Rightarrow> Bucket \<Rightarrow> Iterator \<Rightarrow> int \<Rightarrow> W_regress \<Rightarrow> W_regress" where
  "add_unweighted correct_label bucket it advance this =
     add correct_label bucket 1 it advance this"

text \<open>
  \<open>transfer(correct_label, from, to, weight, it, advance)\<close>. The six updates run in
  the order of the source, so \<open>from = to\<close> reads what the first three wrote.
\<close>

definition transfer ::
  "Label \<Rightarrow> Bucket \<Rightarrow> Bucket \<Rightarrow> real \<Rightarrow> Iterator \<Rightarrow> int \<Rightarrow> W_regress \<Rightarrow> W_regress" where
  "transfer correct_label from to weight it advance this =
     (let f = label_value correct_label;
          w = deref it * weight;
          fw = f * w;
          ffw = f * fw;
          this = this\<lparr>dist := (dist this)(from := dist this from - fw)\<rparr>;
          this = this\<lparr>sqr := (sqr this)(from := sqr this from - ffw)\<rparr>;
          this = this\<lparr>wt := (wt this)(from := wt this from - w)\<rparr>;
          this = this\<lparr>dist := (dist this)(to := dist this to + fw)\<rparr>;
          this = this\<lparr>sqr := (sqr this)(to := sqr this to + ffw)\<rparr>;
          this = this\<lparr>wt := (wt this)(to := wt this to + w)\<rparr>
      in this)"

text \<open>
  \<open>transfer(from, to, w)\<close>, the overload taking another accumulator. It throws at
  once; the pair is the outcome of the call and the state of the receiver after it.
\<close>

definition transfer_W ::
  "Bucket \<Rightarrow> Bucket \<Rightarrow> W_regress \<Rightarrow> W_regress \<Rightarrow> (error + unit) \<times> W_regress" where
  "transfer_W from to w this =
     (Inl (Exception ''W_regress::transfer() not implemented''), this)"

text \<open>\<open>clip(bucket)\<close>, with \<open>std::max(x, 0.0)\<close>.\<close>

definition clip :: "Bucket \<Rightarrow> W_regress \<Rightarrow> W_regress" where
  "clip bucket this =
     (let this = this\<lparr>dist := (dist this)(bucket := max (dist this bucket) 0)\<rparr>;
          this = this\<lparr>sqr := (sqr this)(bucket := max (sqr this bucket) 0)\<rparr>;
          this = this\<lparr>wt := (wt this)(bucket := max (wt this bucket) 0)\<rparr>
      in this)"

text \<open>\<open>swap_buckets(b1, b2)\<close>: three \<open>std::swap\<close>s.\<close>

definition swap_cells :: "(Bucket \<Rightarrow> real) \<Rightarrow> Bucket \<Rightarrow> Bucket \<Rightarrow> (Bucket \<Rightarrow> real)" where
  "swap_cells a b1 b2 = a(b1 := a b2, b2 := a b1)"

definition swap_buckets :: "Bucket \<Rightarrow> Bucket \<Rightarrow> W_regress \<Rightarrow> W_regress" where
  "swap_buckets b1 b2 this =
     this\<lparr>dist := swap_cells (dist this) b1 b2,
          sqr := swap_cells (sqr this) b1 b2,
          wt := swap_cells (wt this) b1 b2\<rparr>"

subsection \<open>The split score Z\<close>

definition worst :: real where
  "worst = 10 ^ 100"

definition none :: real where
  "none = - 1"

definition perfect :: real where
  "perfect = 0"

definition better :: "real \<Rightarrow> real \<Rightarrow> bool" where
  "better z1 z2 = (z1 \<noteq> none \<and> z1 < z2)"

text \<open>\<open>missing(w, optional)\<close>; the threshold is the literal \<open>1e-20\<close>.\<close>

definition missing :: "W_regress \<Rightarrow> bool \<Rightarrow> real" where
  "missing w optional =
     (if wt w MISSING > 1 / 10 ^ 20
      then sqr w MISSING - (dist w MISSING * dist w MISSING) / wt w MISSING
      else 0)"

text \<open>\<open>non_missing(w, missing)\<close>: the loop over the buckets 0 and 1.\<close>

definition non_missing :: "W_regress \<Rightarrow> real \<Rightarrow> real" where
  "non_missing w missing_term =
     fold (\<lambda>i result.
             if wt w i > 1 / 10 ^ 20
             then result + (sqr w i - (dist w i * dist w i) / wt w i)
             else result)
       buckets_upto2 missing_term"

text \<open>
  \<open>operator()(w)\<close> of \<open>Z_regress\<close>. The source writes \<open>non_missing(w, missing(w))\<close>,
  leaving out the second argument of \<open>missing\<close>; the flag is never read by
  \<open>missing\<close>, and the model passes \<open>False\<close>.
\<close>

definition Z_regress_operator :: "W_regress \<Rightarrow> real" where
  "Z_regress_operator w = non_missing w (missing w False)"

text \<open>\<open>can_beat(w, missing, z_best)\<close>.\<close>

definition can_beat :: "W_regress \<Rightarrow> real \<Rightarrow> real \<Rightarrow> bool" where
  "can_beat w missing_term z_best = (missing_term \<le> z_best * 1.0001)"

subsection \<open>The leaf predictor C\<close>

text \<open>
  The value a division leaves in the result. A division by a divisor other than 0 is
  the exact quotient. A division by 0 is what IEEE arithmetic gives: NaN for 0 / 0 and
  an infinity with the sign of the dividend otherwise (the divisor \<open>total_wt\<close> starts
  from \<open>0.0\<close> and sums to \<open>+0.0\<close> when it sums to zero).
\<close>

datatype fval = Finite real | PlusInf | MinusInf | NaN

definition fdiv :: "real \<Rightarrow> real \<Rightarrow> fval" where
  "fdiv x y =
     (if y = 0 then (if x = 0 then NaN else if 0 < x then PlusInf else MinusInf)
      else Finite (x / y))"

text \<open>
  \<open>operator()(w, epsilon, optional)\<close> of \<open>C_regress\<close>. The result is a vector of three
  \<open>distribution<float>\<close> of one entry each (stats/distribution.h is not part of the
  sources at hand; it is used as a vector here).
\<close>

definition C_regress_operator :: "W_regress \<Rightarrow> real \<Rightarrow> bool \<Rightarrow> fval list list" where
  "C_regress_operator w epsilon optional =
     (let model = replicate 1 (Finite 0);
          result = replicate 3 model
      in fold (\<lambda>i result.
                 if wt w i > 1 / 10 ^ 20
                 then result[bucket_index i :=
                        (result ! bucket_index i)[0 := fdiv (dist w i) (wt w i)]]
                 else
                   (let (total, total_wt) =
                          fold (\<lambda>j (total, total_wt). (total + dist w j, total_wt + wt w j))
                            buckets_upto3 (0, 0)
                    in result[bucket_index i :=
                         (result ! bucket_index i)[0 := fdiv total total_wt]]))
           buckets_upto3 result)"

subsection \<open>Sums over the buckets and sequences of calls\<close>

definition bucket_sum :: "(Bucket \<Rightarrow> real) \<Rightarrow> real" where
  "bucket_sum a = a FALSE + a TRUE + a MISSING"

datatype call =
    Add Label Bucket real Iterator int
  | Transfer Label Bucket Bucket real Iterator int

fun apply_call :: "call \<Rightarrow> W_regress \<Rightarrow> W_regress" where
  "apply_call (Add l b weight it advance) w = add l b weight it advance w"
| "apply_call (Transfer l from to weight it advance) w = transfer l from to weight it advance w"

fun is_Add :: "call \<Rightarrow> bool" where
  "is_Add (Add l b weight it advance) = True"
| "is_Add (Transfer l from to weight it advance) = False"

definition run_calls :: "call list \<Rightarrow> W_regress \<Rightarrow> W_regress" where
  "run_calls cs w = fold apply_call cs w"

subsection \<open>Example states\<close>

definition zero_W :: W_regress where
  "zero_W = \<lparr>dist = (\<lambda>b. 0), sqr = (\<lambda>b. 0), wt = (\<lambda>b. 0)\<rparr>"

definition unit_weights :: Iterator where
  "unit_weights = (\<lambda>k. 1)"

definition other_weights :: Iterator where
  "other_weights = (\<lambda>k. if k = 0 then 1 else 7)"

text \<open>One example of label 1 moved from the empty MISSING bucket to TRUE.\<close>

definition moved_W :: W_regress where
  "moved_W = transfer (Label 1) MISSING TRUE 1 unit_weights 1 zero_W"

text \<open>One example of label -1 in bucket FALSE.\<close>

definition negative_W :: W_regress where
  "negative_W = add (Label (- 1)) FALSE 1 unit_weights 1 zero_W"

text \<open>
  The five unit-weight examples with labels 1, -1, 1, 1, -1 added to bucket TRUE, and the
  state after one of the examples of label 1 is moved from TRUE to FALSE.
\<close>

definition example_W5 :: W_regress where
  "example_W5 =
     fold (\<lambda>l. add_unweighted (Label l) TRUE unit_weights 1) [1, - 1, 1, 1, - 1] zero_W"

definition example_W6 :: W_regress where
  "example_W6 = transfer (Label 1) TRUE FALSE 1 unit_weights 1 example_W5"

text \<open>Weight in FALSE and MISSING, none in TRUE.\<close>

definition split_W :: W_regress where
  "split_W = add (Label 2) MISSING 1 unit_weights 1 (add (Label 4) FALSE 3 unit_weights 1 zero_W)"

text \<open>One example of label 1 and weight \<open>1e-21\<close> in bucket FALSE.\<close>

definition tiny_W :: W_regress where
  "tiny_W = add (Label 1) FALSE (1 / 10 ^ 21) unit_weights 1 zero_W"

text \<open>
  Two examples in MISSING (labels 1 and -1), one of label 0 and weight 2 in FALSE, and
  then a transfer from FALSE to TRUE of an example of label 10 that was never added
  to FALSE.
\<close>

definition skewed_W :: W_regress where
  "skewed_W =
     transfer (Label 10) FALSE TRUE 1 unit_weights 1
       (add (Label 0) FALSE 2 unit_weights 1
         (add (Label (- 1)) MISSING 1 unit_weights 1
           (add (Label 1) MISSING 1 unit_weights 1 zero_W)))"

text \<open>
  Two examples in MISSING (labels 1 and -1) and one example of label 8194 in FALSE, all
  of weight 1, with the exact sums of this model; and the state the program stores
  after the same three calls. In \<open>add\<close> the local \<open>float ffw\<close> holds the product
  8194 * 8194 = 67141636 rounded to binary32: between \<open>2^26\<close> and \<open>2^27\<close> the binary32
  numbers are the multiples of 8, the product lies halfway between 67141632 and
  67141640, and the tie goes to the even significand, 67141632. Every other value of
  the three calls is exact in binary32 and binary64.
\<close>

definition exact_W8194 :: W_regress where
  "exact_W8194 =
     add (Label 8194) FALSE 1 unit_weights 1
       (add (Label (- 1)) MISSING 1 unit_weights 1
         (add (Label 1) MISSING 1 unit_weights 1 zero_W))"

definition rounded_W8194 :: W_regress where
  "rounded_W8194 = exact_W8194\<lparr>sqr := (sqr exact_W8194)(FALSE := 67141632)\<rparr>"

text \<open>The five examples in TRUE and two examples (labels 1 and -1) in MISSING.\<close>

definition pruned_W :: W_regress where
  "pruned_W =
     add (Label (- 1)) MISSING 1 unit_weights 1
       (add (Label 1) MISSING 1 unit_weights 1 example_W5)"

subsection \<open>States built from weighted examples\<close>

text \<open>
  In a bucket that holds examples of non-negative weight, the Cauchy-Schwarz inequality
  relates the three exact sums: \<open>dist\<^sup>2 \<le> sqr * wt\<close>.
\<close>

definition consistent :: "W_regress \<Rightarrow> bool" where
  "consistent w = (\<forall>b. 0 \<le> sqr w b \<and> 0 \<le> wt w b \<and> (dist w b)\<^sup>2 \<le> sqr w b * wt w b)"

fun nonneg_add :: "call \<Rightarrow> bool" where
  "nonneg_add (Add l b weight it advance) = (0 \<le> deref it * weight)"
| "nonneg_add (Transfer l from to weight it advance) = False"

definition totals :: "W_regress \<Rightarrow> real \<times> real \<times> real" where
  "totals w = (bucket_sum (dist w), bucket_sum (sqr w), bucket_sum (wt w))"

section \<open>Properties of the accumulator\<close>

lemma fold_zero_bucket:
  "fold zero_bucket buckets_upto3 raw = zero_W"
proof -
  have "(\<lambda>b. 0) = ((dist raw)(FALSE := 0, TRUE := 0, MISSING := 0))" for raw :: W_regress
    by (rule ext) (case_tac b; simp)
  moreover have "(\<lambda>b. 0) = ((sqr raw)(FALSE := 0, TRUE := 0, MISSING := 0))"
    by (rule ext) (case_tac b; simp)
  moreover have "(\<lambda>b. 0) = ((wt raw)(FALSE := 0, TRUE := 0, MISSING := 0))"
    by (rule ext) (case_tac b; simp)
  ultimately show ?thesis
    by (simp add: buckets_upto3_def zero_bucket_def zero_W_def Let_def)
qed

text \<open>
  C7. Construction fails with the exception of the constructor (the spec's
  InvalidProblem) exactly when the number of labels is not 1, so it fails for 2;
  with one label it succeeds and all nine fields are 0, whatever the arrays held.
\<close>

theorem C7_construct:
  "(W_regress_new raw nl = Inl InvalidProblem) = (nl \<noteq> 1)
   \<and> (\<exists>w. W_regress_new raw nl = Inr w) = (nl = 1)
   \<and> W_regress_new raw 2 = Inl InvalidProblem
   \<and> W_regress_new raw 1 = Inr \<lparr>dist = (\<lambda>b. 0), sqr = (\<lambda>b. 0), wt = (\<lambda>b. 0)\<rparr>"
  using fold_zero_bucket [of raw]
  by (simp add: W_regress_new_def InvalidProblem_def zero_W_def)

lemma clip_fields:
  "dist (clip b w) = (dist w)(b := max (dist w b) 0)"
  "sqr (clip b w) = (sqr w)(b := max (sqr w b) 0)"
  "wt (clip b w) = (wt w)(b := max (wt w b) 0)"
  by (simp_all add: clip_def Let_def)

text \<open>
  C6, as the code has it. Clipping a bucket twice gives the state that clipping it once
  gives; each field of the bucket becomes the maximum of its value and 0, that is, a
  negative field is raised to 0 and a non-negative field is kept; so after the clip
  the three fields of the bucket are at least 0, and the clip never decreases a field
  of the bucket.
\<close>

theorem C6_clip_idempotent_nondecreasing:
  "clip b (clip b w) = clip b w
   \<and> dist (clip b w) b = max (dist w b) 0
   \<and> sqr (clip b w) b = max (sqr w b) 0
   \<and> wt (clip b w) b = max (wt w b) 0
   \<and> dist (clip b w) b = (if dist w b < 0 then 0 else dist w b)
   \<and> sqr (clip b w) b = (if sqr w b < 0 then 0 else sqr w b)
   \<and> wt (clip b w) b = (if wt w b < 0 then 0 else wt w b)
   \<and> 0 \<le> dist (clip b w) b \<and> 0 \<le> sqr (clip b w) b \<and> 0 \<le> wt (clip b w) b
   \<and> dist w b \<le> dist (clip b w) b \<and> sqr w b \<le> sqr (clip b w) b
   \<and> wt w b \<le> wt (clip b w) b"
proof -
  have "clip b (clip b w) = clip b w"
    by (rule W_regress.equality) (simp_all add: clip_fields clip_def Let_def)
  moreover have "max x 0 = (if x < 0 then 0 else x)" for x :: real
    by (simp add: max_def)
  ultimately show ?thesis
    by (simp add: clip_fields)
qed

text \<open>
  C6 as stated fails: with one example of label -1 in bucket FALSE, the field
  dist[FALSE] is -1 before the clip and 0 after it, so the clip increased it.
\<close>

theorem C6_clip_increases_counterexample:
  "dist negative_W FALSE = - 1 \<and> dist (clip FALSE negative_W) FALSE = 0
   \<and> \<not> dist (clip FALSE negative_W) FALSE \<le> dist negative_W FALSE"
  by (simp add: clip_fields negative_W_def add_def zero_W_def unit_weights_def deref_def
      Let_def)

text \<open>
  C8. The accumulator-to-accumulator transfer throws the exception of the source (the
  spec's NotImplemented) for every pair of buckets and every other accumulator, and the
  receiver is as it was before the call.
\<close>

theorem C8_transfer_W_not_implemented:
  "fst (transfer_W from to other this) = Inl NotImplemented
   \<and> snd (transfer_W from to other this) = this"
  by (simp add: transfer_W_def NotImplemented_def)

text \<open>
  C9. The weighted add and the transfer read the weights only through \<open>*it\<close>: two
  calls on the same state whose weight ranges agree at offset 0 give the same state,
  whatever the other entries of the ranges and whatever the two advance arguments.
\<close>

theorem C9_first_weight_only:
  assumes "it 0 = it' 0"
  shows "add l b weight it advance w = add l b weight it' advance' w
   \<and> transfer l from to weight it advance w = transfer l from to weight it' advance' w"
  using assms by (simp add: add_def transfer_def deref_def)

theorem C9_first_weight_only_witness:
  "unit_weights 0 = other_weights 0 \<and> unit_weights 1 \<noteq> other_weights 1
   \<and> add (Label 3) TRUE 2 unit_weights 1 negative_W
       = add (Label 3) TRUE 2 other_weights 5 negative_W
   \<and> transfer (Label 3) FALSE TRUE 2 unit_weights 1 negative_W
       = transfer (Label 3) FALSE TRUE 2 other_weights 5 negative_W"
proof -
  have h: "unit_weights 0 = other_weights 0"
    by (simp add: unit_weights_def other_weights_def)
  show ?thesis
    using h C9_first_weight_only
        [of unit_weights other_weights "Label 3" TRUE 2 1 negative_W 5 FALSE TRUE]
    by (simp add: unit_weights_def other_weights_def)
qed

text \<open>
  C10. A clip of bucket b leaves the three fields of every other bucket as they were.
\<close>

theorem C10_clip_frame:
  assumes "b' \<noteq> b"
  shows "dist (clip b w) b' = dist w b' \<and> sqr (clip b w) b' = sqr w b'
   \<and> wt (clip b w) b' = wt w b'"
  using assms by (simp add: clip_fields)

theorem C10_clip_frame_witness:
  "TRUE \<noteq> MISSING \<and> clip MISSING moved_W \<noteq> moved_W
   \<and> dist (clip MISSING moved_W) TRUE = dist moved_W TRUE
   \<and> sqr (clip MISSING moved_W) TRUE = sqr moved_W TRUE
   \<and> wt (clip MISSING moved_W) TRUE = wt moved_W TRUE
   \<and> wt moved_W TRUE = 1"
proof -
  have h: "TRUE \<noteq> MISSING" by simp
  have "wt (clip MISSING moved_W) MISSING \<noteq> wt moved_W MISSING"
    by (simp add: clip_fields moved_W_def transfer_def zero_W_def unit_weights_def
        deref_def Let_def)
  then have "clip MISSING moved_W \<noteq> moved_W" by auto
  moreover have "wt moved_W TRUE = 1"
    by (simp add: moved_W_def transfer_def zero_W_def unit_weights_def deref_def Let_def)
  ultimately show ?thesis
    using C10_clip_frame [OF h, of moved_W] by simp
qed

subsection \<open>Conservation\<close>

lemma sum_add:
  "bucket_sum (dist (add l b weight it advance w)) =
     bucket_sum (dist w) + label_value l * (deref it * weight)"
  "bucket_sum (sqr (add l b weight it advance w)) =
     bucket_sum (sqr w) + label_value l * (label_value l * (deref it * weight))"
  "bucket_sum (wt (add l b weight it advance w)) = bucket_sum (wt w) + deref it * weight"
  by (cases b; simp add: add_def bucket_sum_def Let_def)+

lemma sum_transfer:
  "bucket_sum (dist (transfer l from to weight it advance w)) = bucket_sum (dist w)"
  "bucket_sum (sqr (transfer l from to weight it advance w)) = bucket_sum (sqr w)"
  "bucket_sum (wt (transfer l from to weight it advance w)) = bucket_sum (wt w)"
  by (cases "from"; cases to; simp add: transfer_def bucket_sum_def Let_def)+

lemma totals_run:
  "totals w = totals w' \<Longrightarrow>
   totals (fold apply_call cs w) = totals (fold apply_call (filter is_Add cs) w')"
proof (induction cs arbitrary: w w')
  case Nil
  then show ?case by simp
next
  case (Cons c cs)
  show ?case
  proof (cases c)
    case (Add l b weight it advance)
    have "totals (apply_call c w) = totals (apply_call c w')"
      using Cons.prems by (simp add: Add totals_def sum_add)
    from Cons.IH [OF this] show ?thesis by (simp add: Add)
  next
    case (Transfer l src dst weight it advance)
    have "totals (apply_call c w) = totals w'"
      using Cons.prems by (simp add: Transfer totals_def sum_transfer)
    from Cons.IH [OF this] show ?thesis by (simp add: Transfer)
  qed
qed

text \<open>
  C2. A transfer leaves the sum over the three buckets of each field unchanged, also
  when the two buckets are the same; hence after any sequence of add and transfer
  calls each of the three sums is what the add calls of the sequence alone give.
\<close>

theorem C2_conservation:
  "bucket_sum (dist (transfer l from to weight it advance w)) = bucket_sum (dist w)
   \<and> bucket_sum (sqr (transfer l from to weight it advance w)) = bucket_sum (sqr w)
   \<and> bucket_sum (wt (transfer l from to weight it advance w)) = bucket_sum (wt w)
   \<and> bucket_sum (dist (run_calls cs w)) = bucket_sum (dist (run_calls (filter is_Add cs) w))
   \<and> bucket_sum (sqr (run_calls cs w)) = bucket_sum (sqr (run_calls (filter is_Add cs) w))
   \<and> bucket_sum (wt (run_calls cs w)) = bucket_sum (wt (run_calls (filter is_Add cs) w))"
  using totals_run [of w w cs]
  by (simp add: sum_transfer run_calls_def totals_def)

section \<open>Properties of the split score\<close>

lemma example_W5_fields:
  "dist example_W5 = (\<lambda>b. 0)(TRUE := 1)"
  "sqr example_W5 = (\<lambda>b. 0)(TRUE := 5)"
  "wt example_W5 = (\<lambda>b. 0)(TRUE := 5)"
  by (simp_all add: example_W5_def add_unweighted_def add_def zero_W_def unit_weights_def
      deref_def Let_def)

lemma example_W6_fields:
  "dist example_W6 = (\<lambda>b. 0)(TRUE := 0, FALSE := 1)"
  "sqr example_W6 = (\<lambda>b. 0)(TRUE := 4, FALSE := 1)"
  "wt example_W6 = (\<lambda>b. 0)(TRUE := 4, FALSE := 1)"
  by (simp_all add: example_W6_def transfer_def example_W5_fields unit_weights_def
      deref_def Let_def)

text \<open>
  C3. From a fresh accumulator, the five unit-weight examples in TRUE give
  wt = 5, dist = 1, sqr = 5 there, the missing term 0 and the score 5 - 1/5 = 4.8;
  moving one example of label 1 to FALSE gives (4, 0, 4) in TRUE, (1, 1, 1) in FALSE
  and the score 4.
\<close>

theorem C3_end_to_end:
  "W_regress_new raw 1 = Inr zero_W
   \<and> wt example_W5 TRUE = 5 \<and> dist example_W5 TRUE = 1 \<and> sqr example_W5 TRUE = 5
   \<and> missing example_W5 optional = 0
   \<and> Z_regress_operator example_W5 = 5 - (1 * 1) / 5
   \<and> Z_regress_operator example_W5 = 4.8
   \<and> wt example_W6 TRUE = 4 \<and> dist example_W6 TRUE = 0 \<and> sqr example_W6 TRUE = 4
   \<and> wt example_W6 FALSE = 1 \<and> dist example_W6 FALSE = 1 \<and> sqr example_W6 FALSE = 1
   \<and> Z_regress_operator example_W6 = (4 - 0) + (1 - 1)
   \<and> Z_regress_operator example_W6 = 4"
  using fold_zero_bucket [of raw]
  by (simp add: W_regress_new_def example_W5_fields example_W6_fields missing_def
      Z_regress_operator_def non_missing_def buckets_upto2_def)

lemma variance_term_nonneg:
  assumes "(dist w i)\<^sup>2 \<le> sqr w i * wt w i" and "wt w i > 1 / 10 ^ 20"
  shows "0 \<le> sqr w i - (dist w i * dist w i) / wt w i"
proof -
  have "0 < wt w i"
    using assms(2) by (rule less_trans [rotated]) simp
  then have "(dist w i * dist w i) / wt w i \<le> sqr w i"
    using assms(1) by (simp add: pos_divide_le_eq power2_eq_square)
  then show ?thesis by simp
qed

lemma missing_nonneg:
  assumes "(dist w MISSING)\<^sup>2 \<le> sqr w MISSING * wt w MISSING"
  shows "0 \<le> missing w optional"
  using variance_term_nonneg [OF assms] by (simp add: missing_def)

lemma non_missing_ge:
  assumes "(dist w FALSE)\<^sup>2 \<le> sqr w FALSE * wt w FALSE"
    and "(dist w TRUE)\<^sup>2 \<le> sqr w TRUE * wt w TRUE"
  shows "m \<le> non_missing w m"
proof -
  let ?v = "\<lambda>i. if wt w i > 1 / 10 ^ 20
                   then sqr w i - (dist w i * dist w i) / wt w i else 0"
  have "non_missing w m = m + ?v FALSE + ?v TRUE"
    by (simp add: non_missing_def buckets_upto2_def)
  moreover have "0 \<le> ?v FALSE"
    using variance_term_nonneg [OF assms(1)] by (simp del: divide_le_eq_numeral1
        less_divide_eq_numeral1 divide_less_eq_numeral1 le_divide_eq_numeral1)
  moreover have "0 \<le> ?v TRUE"
    using variance_term_nonneg [OF assms(2)] by (simp del: divide_le_eq_numeral1
        less_divide_eq_numeral1 divide_less_eq_numeral1 le_divide_eq_numeral1)
  ultimately show ?thesis by linarith
qed

lemma missing_flag: "missing w optional = missing w optional'"
  by (simp add: missing_def)

lemma cs_step:
  fixes d s t f x :: real
  assumes "0 \<le> s" "0 \<le> t" "0 \<le> x" "d\<^sup>2 \<le> s * t"
  shows "(d + f * x)\<^sup>2 \<le> (s + f * (f * x)) * (t + x)"
proof -
  have q: "0 \<le> s - 2 * d * f + f\<^sup>2 * t"
  proof (cases "t = 0")
    case True
    with assms(4) have "d = 0" by simp
    with True assms(1) show ?thesis by simp
  next
    case False
    with assms(2) have tpos: "0 < t" by simp
    have "0 \<le> (d - f * t)\<^sup>2" by simp
    also have "\<dots> = d\<^sup>2 - 2 * d * f * t + f\<^sup>2 * t\<^sup>2"
      by (simp add: power2_eq_square algebra_simps)
    also have "\<dots> \<le> s * t - 2 * d * f * t + f\<^sup>2 * t\<^sup>2"
      using assms(4) by simp
    also have "\<dots> = t * (s - 2 * d * f + f\<^sup>2 * t)"
      by (simp add: power2_eq_square algebra_simps)
    finally show ?thesis
      using tpos by (simp add: zero_le_mult_iff)
  qed
  have "(s + f * (f * x)) * (t + x) - (d + f * x)\<^sup>2 =
        (s * t - d\<^sup>2) + x * (s - 2 * d * f + f\<^sup>2 * t)"
    by (simp add: power2_eq_square algebra_simps)
  moreover have "0 \<le> (s * t - d\<^sup>2) + x * (s - 2 * d * f + f\<^sup>2 * t)"
    using assms(3,4) q by simp
  ultimately show ?thesis by simp
qed

lemma consistent_zero_W: "consistent zero_W"
  by (simp add: consistent_def zero_W_def)

lemma consistent_add:
  assumes "0 \<le> deref it * weight" and "consistent w"
  shows "consistent (add l b weight it advance w)"
proof -
  let ?x = "deref it * weight" and ?f = "label_value l"
  have b: "0 \<le> sqr w b" "0 \<le> wt w b" "(dist w b)\<^sup>2 \<le> sqr w b * wt w b"
    using assms(2) by (simp_all add: consistent_def)
  have "(dist w b + ?f * ?x)\<^sup>2 \<le> (sqr w b + ?f * (?f * ?x)) * (wt w b + ?x)"
    using b assms(1) by (intro cs_step) simp_all
  moreover have "0 \<le> ?f * (?f * ?x)"
  proof -
    have "0 \<le> (?f * ?f) * ?x"
      by (rule mult_nonneg_nonneg) (simp_all add: assms(1))
    then show ?thesis by (simp only: mult.assoc)
  qed
  ultimately show ?thesis
    using assms b unfolding consistent_def add_def Let_def
    by (simp add: add_nonneg_nonneg)
qed

lemma consistent_adds:
  "consistent w \<Longrightarrow> list_all nonneg_add cs \<Longrightarrow> consistent (fold apply_call cs w)"
proof (induction cs arbitrary: w)
  case Nil
  then show ?case by simp
next
  case (Cons c cs)
  then show ?case
    by (cases c) (simp_all add: consistent_add)
qed

lemma consistent_cauchy_schwarz:
  "consistent w \<Longrightarrow> \<forall>b. (dist w b)\<^sup>2 \<le> sqr w b * wt w b"
  by (simp add: consistent_def)

text \<open>
  What the bound of \<open>can_beat\<close> rests on, in exact arithmetic only. With exact sums, a
  state whose buckets each satisfy \<open>dist\<^sup>2 \<le> sqr * wt\<close> (every state built from the
  fresh accumulator by adds of non-negative weight is one, by \<open>consistent_adds\<close> and
  \<open>consistent_cauchy_schwarz\<close>) has non-negative terms, and a missing term that
  cannot beat \<open>z_best\<close> means that the full score is at least \<open>z_best\<close>. The program
  does not compute exact sums: this lemma, \<open>consistent_add\<close> and \<open>non_missing_ge\<close> are
  not facts about its rounded arithmetic, as \<open>rounded_W8194_pruned_below_best\<close> shows.
\<close>

lemma pruning_sound_exact:
  assumes inv: "\<forall>b. (dist w b)\<^sup>2 \<le> sqr w b * wt w b"
    and nb: "\<not> can_beat w (missing w optional) z_best"
  shows "z_best \<le> Z_regress_operator w"
proof -
  let ?m = "missing w False"
  have m0: "0 \<le> ?m"
    using inv by (simp add: missing_nonneg)
  have gt: "z_best * 1.0001 < ?m"
    using nb missing_flag [of w optional False] by (simp add: can_beat_def)
  have "z_best \<le> ?m"
  proof (cases "0 \<le> z_best")
    case True
    then have "z_best \<le> z_best * 1.0001" by simp
    with gt show ?thesis by simp
  next
    case False
    with m0 show ?thesis by simp
  qed
  also have "?m \<le> non_missing w ?m"
    using inv by (simp add: non_missing_ge)
  finally show ?thesis
    by (simp add: Z_regress_operator_def)
qed

lemma pruning_sound_exact_at_pruned_W:
  "(\<forall>b. (dist pruned_W b)\<^sup>2 \<le> sqr pruned_W b * wt pruned_W b)
   \<and> \<not> can_beat pruned_W (missing pruned_W False) 1
   \<and> missing pruned_W False = 2
   \<and> 1 \<le> Z_regress_operator pruned_W"
proof -
  have f: "dist pruned_W = (\<lambda>b. 0)(TRUE := 1, MISSING := 0)"
    "sqr pruned_W = (\<lambda>b. 0)(TRUE := 5, MISSING := 2)"
    "wt pruned_W = (\<lambda>b. 0)(TRUE := 5, MISSING := 2)"
    by (simp_all add: pruned_W_def add_def example_W5_fields unit_weights_def deref_def
        Let_def)
  have inv: "\<forall>b. (dist pruned_W b)\<^sup>2 \<le> sqr pruned_W b * wt pruned_W b"
    by (simp add: f)
  have m: "missing pruned_W False = 2"
    by (simp add: missing_def f)
  have nb: "\<not> can_beat pruned_W (missing pruned_W False) 1"
    by (simp add: m can_beat_def)
  show ?thesis
    using inv nb m pruning_sound_exact [OF inv nb] by simp
qed

text \<open>
  C1. The code does not keep the bound. The comment of \<open>can_beat\<close> says that it returns
  true if it is possible to beat the score given, and \<open>non_missing\<close> adds the terms
  \<open>sqr - dist * dist / wt\<close> of FALSE and TRUE as they are, negative or not. After a
  transfer out of FALSE of an example that FALSE never held (all values exact in
  binary32 and binary64), the term of FALSE is -200: the missing term 2 cannot beat
  the best score 1, \<open>can_beat\<close> returns false, and yet the full score is -198.
\<close>

theorem C1_pruning_counterexample:
  "\<not> can_beat skewed_W (missing skewed_W False) 1
   \<and> Z_regress_operator skewed_W = - 198
   \<and> \<not> 1 \<le> Z_regress_operator skewed_W"
  by (simp add: can_beat_def missing_def Z_regress_operator_def non_missing_def
      buckets_upto2_def skewed_W_def add_def transfer_def zero_W_def unit_weights_def
      deref_def Let_def)

text \<open>
  The same happens with adds alone, through the rounding of \<open>ffw\<close>. The product
  8194 * 8194 lies between \<open>2^26\<close> and \<open>2^27\<close>, halfway between two neighbouring
  multiples of 8, and the lower one has the even significand.
\<close>

lemma binary32_tie_8194_squared:
  "(8194::real) * 8194 = 67141636
   \<and> (2::real) ^ 26 \<le> 67141636 \<and> (67141636::real) < 2 ^ 27
   \<and> (67141632::real) = 8392704 * 2 ^ 3 \<and> (67141640::real) = 8392705 * 2 ^ 3
   \<and> (67141636::real) - 67141632 = 67141640 - 67141636
   \<and> even (8392704::int)"
  by simp

lemma exact_W8194_fields:
  "dist exact_W8194 = (\<lambda>b. 0)(MISSING := 0, FALSE := 8194)"
  "sqr exact_W8194 = (\<lambda>b. 0)(MISSING := 2, FALSE := 67141636)"
  "wt exact_W8194 = (\<lambda>b. 0)(MISSING := 2, FALSE := 1)"
  by (simp_all add: exact_W8194_def add_def zero_W_def unit_weights_def deref_def Let_def)

text \<open>
  On the state the program stores, the term of FALSE is 67141632 - 67141636 = -4 (exact
  in binary64): the missing term 2 cannot beat the best score 1, and the full score
  is -2. On the exact sums of the model the term is 0 and the score is 2.
\<close>

lemma rounded_W8194_pruned_below_best:
  "(dist rounded_W8194 FALSE, sqr rounded_W8194 FALSE, wt rounded_W8194 FALSE)
     = (8194, 67141632, 1)
   \<and> (dist rounded_W8194 MISSING, sqr rounded_W8194 MISSING, wt rounded_W8194 MISSING)
     = (0, 2, 2)
   \<and> \<not> can_beat rounded_W8194 (missing rounded_W8194 False) 1
   \<and> Z_regress_operator rounded_W8194 = - 2
   \<and> \<not> 1 \<le> Z_regress_operator rounded_W8194
   \<and> Z_regress_operator exact_W8194 = 2"
  by (simp add: rounded_W8194_def exact_W8194_fields can_beat_def missing_def
      Z_regress_operator_def non_missing_def buckets_upto2_def)

section \<open>Properties of the leaf predictor\<close>

lemma C_regress_closed:
  "C_regress_operator w epsilon optional =
     map (\<lambda>i. [if wt w i > 1 / 10 ^ 20 then fdiv (dist w i) (wt w i)
                else fdiv (bucket_sum (dist w)) (bucket_sum (wt w))]) buckets_upto3"
  by (simp add: C_regress_operator_def buckets_upto3_def bucket_index_def bucket_sum_def
      numeral_3_eq_3 Let_def)

text \<open>
  C4. The predictor returns three one-entry records, in the order FALSE, TRUE, MISSING.
  A bucket whose weight exceeds \<open>1e-20\<close> gets dist / wt; any other bucket gets the
  quotient of the sum of dist by the sum of wt over the three buckets, which is the
  weighted mean whenever the weights do not sum to 0. So with no weight in TRUE and
  weight elsewhere, the prediction of TRUE is the global weighted mean.
\<close>

theorem C4_leaf_prediction:
  "length (C_regress_operator w epsilon optional) = 3
   \<and> (\<forall>i. C_regress_operator w epsilon optional ! bucket_index i =
          [if wt w i > 1 / 10 ^ 20 then Finite (dist w i / wt w i)
           else fdiv (bucket_sum (dist w)) (bucket_sum (wt w))])
   \<and> (bucket_sum (wt w) \<noteq> 0 \<longrightarrow>
        fdiv (bucket_sum (dist w)) (bucket_sum (wt w)) =
          Finite (bucket_sum (dist w) / bucket_sum (wt w)))
   \<and> (wt w TRUE = 0 \<and> wt w FALSE + wt w MISSING \<noteq> 0 \<longrightarrow>
        C_regress_operator w epsilon optional ! bucket_index TRUE =
          [Finite (bucket_sum (dist w) / bucket_sum (wt w))])"
proof -
  have g: "wt w i > 1 / 10 ^ 20 \<Longrightarrow> fdiv (dist w i) (wt w i) = Finite (dist w i / wt w i)"
    for i
    by (auto simp add: fdiv_def)
  have "C_regress_operator w epsilon optional ! bucket_index i =
          [if wt w i > 1 / 10 ^ 20 then Finite (dist w i / wt w i)
           else fdiv (bucket_sum (dist w)) (bucket_sum (wt w))]" for i
    using g [of i]
    by (cases i) (simp_all add: C_regress_closed buckets_upto3_def bucket_index_def)
  moreover have "bucket_sum (wt w) \<noteq> 0 \<longrightarrow>
        fdiv (bucket_sum (dist w)) (bucket_sum (wt w)) =
          Finite (bucket_sum (dist w) / bucket_sum (wt w))"
    by (simp add: fdiv_def)
  moreover have "wt w TRUE = 0 \<and> wt w FALSE + wt w MISSING \<noteq> 0 \<longrightarrow>
        C_regress_operator w epsilon optional ! bucket_index TRUE =
          [Finite (bucket_sum (dist w) / bucket_sum (wt w))]"
    by (simp add: C_regress_closed buckets_upto3_def bucket_index_def fdiv_def
        bucket_sum_def)
  moreover have "length (C_regress_operator w epsilon optional) = 3"
    by (simp add: C_regress_closed buckets_upto3_def)
  ultimately show ?thesis by blast
qed

theorem C4_leaf_prediction_witness:
  "wt split_W TRUE = 0 \<and> wt split_W FALSE + wt split_W MISSING \<noteq> 0
   \<and> bucket_sum (wt split_W) \<noteq> 0
   \<and> bucket_sum (dist split_W) / bucket_sum (wt split_W) = 7 / 2
   \<and> C_regress_operator split_W 0 False = [[Finite 4], [Finite (7 / 2)], [Finite 2]]"
proof -
  have f: "dist split_W = (\<lambda>b. 0)(FALSE := 12, MISSING := 2)"
    "wt split_W = (\<lambda>b. 0)(FALSE := 3, MISSING := 1)"
    by (simp_all add: split_W_def add_def zero_W_def unit_weights_def deref_def Let_def)
  have h: "wt split_W TRUE = 0 \<and> wt split_W FALSE + wt split_W MISSING \<noteq> 0"
    by (simp add: f)
  have s: "bucket_sum (wt split_W) = 4" "bucket_sum (dist split_W) = 14"
    by (simp_all add: f bucket_sum_def)
  have l: "xs = [xs ! 0, xs ! 1, xs ! 2]" if "length xs = 3" for xs :: "fval list list"
    using that by (cases xs; simp; rename_tac ys; case_tac ys; simp; rename_tac zs;
        case_tac zs; simp)
  note c = C4_leaf_prediction [of split_W 0 False]
  have "C_regress_operator split_W 0 False ! 0 = [Finite 4]"
    using c [THEN conjunct2, THEN conjunct1, THEN spec, of FALSE]
    by (simp add: bucket_index_def f)
  moreover have "C_regress_operator split_W 0 False ! 1 = [Finite (7 / 2)]"
    using c [THEN conjunct2, THEN conjunct2, THEN conjunct2] h
    by (simp add: bucket_index_def s)
  moreover have "C_regress_operator split_W 0 False ! 2 = [Finite 2]"
    using c [THEN conjunct2, THEN conjunct1, THEN spec, of MISSING]
    by (simp add: bucket_index_def f)
  ultimately have "C_regress_operator split_W 0 False = [[Finite 4], [Finite (7 / 2)], [Finite 2]]"
    using l [OF c [THEN conjunct1]] by simp
  then show ?thesis using h s by simp
qed

text \<open>
  C5, as the code has it. When no bucket has weight above \<open>1e-20\<close> and the three
  weights sum to 0, every prediction is the result of the unguarded division by 0:
  NaN when the sum of dist is 0 too (so for the all-zero accumulator), an infinity
  otherwise; no prediction is finite.
\<close>

theorem C5_zero_total_weight:
  assumes "\<forall>i. wt w i \<le> 1 / 10 ^ 20" and "bucket_sum (wt w) = 0"
  shows "C_regress_operator w epsilon optional =
           (let v = (if bucket_sum (dist w) = 0 then NaN
                     else if 0 < bucket_sum (dist w) then PlusInf else MinusInf)
            in [[v], [v], [v]])
         \<and> (\<forall>x. [Finite x] \<notin> set (C_regress_operator w epsilon optional))"
proof -
  have "\<not> wt w i > 1 / 10 ^ 20" for i
    using assms(1) [THEN spec, of i] by simp
  then show ?thesis
    using assms(2)
    by (simp add: C_regress_closed buckets_upto3_def fdiv_def Let_def)
qed

theorem C5_zero_total_weight_witness:
  "(\<forall>i. wt zero_W i \<le> 1 / 10 ^ 20) \<and> bucket_sum (wt zero_W) = 0
   \<and> C_regress_operator zero_W 0 False = [[NaN], [NaN], [NaN]]"
proof -
  have a: "\<forall>i. wt zero_W i \<le> 1 / 10 ^ 20" by (simp add: zero_W_def)
  have b: "bucket_sum (wt zero_W) = 0" by (simp add: zero_W_def bucket_sum_def)
  have c: "bucket_sum (dist zero_W) = 0" by (simp add: zero_W_def bucket_sum_def)
  show ?thesis
    using a b C5_zero_total_weight [OF a b, of 0 False]
    by (simp add: c)
qed

text \<open>
  C5 as stated, for every state with all weights at most \<open>1e-20\<close>, fails: one example
  of weight \<open>1e-21\<close> and label 1 gives a total weight other than 0 and the finite
  prediction 1 for each bucket.
\<close>

theorem C5_small_weights_counterexample:
  "wt tiny_W FALSE \<le> 1 / 10 ^ 20 \<and> wt tiny_W TRUE \<le> 1 / 10 ^ 20
   \<and> wt tiny_W MISSING \<le> 1 / 10 ^ 20
   \<and> bucket_sum (wt tiny_W) \<noteq> 0
   \<and> C_regress_operator tiny_W 0 False = [[Finite 1], [Finite 1], [Finite 1]]"
  by (simp add: C_regress_closed buckets_upto3_def fdiv_def bucket_sum_def tiny_W_def
      add_def zero_W_def unit_weights_def deref_def Let_def)

end
